theory Spec2Isabelle
  imports Main "HOL-Library.Sublist" "HOL-Library.AList" "HOL-Library.Monad_Syntax"
begin

section \<open>Python values and the operations the spoofer applies to them\<close>

text \<open>
  The class \<^verbatim>\<open>ChromebookSpoofer\<close> of \<^verbatim>\<open>Scripts/chromebook_spoofer.py\<close> reads a hardware
  report: nested dictionaries decoded from JSON. Its methods \<^verbatim>\<open>is_chromebook\<close>,
  \<^verbatim>\<open>get_chromebook_info\<close>, \<^verbatim>\<open>spoof_igpu_for_chromebook\<close>, \<^verbatim>\<open>spoof_cpu_for_chromebook\<close> and
  \<^verbatim>\<open>generate_chromebook_report\<close> are embedded here, each under its own name; they use no
  attribute of the object, so \<^verbatim>\<open>self\<close> is dropped. \<^verbatim>\<open>print_chromebook_detection_info\<close> only
  prints a report and waits for a key; it is not embedded.

  The code never checks a type, so a value of the wrong kind makes a method call or an
  operator raise (\<^verbatim>\<open>AttributeError\<close>, \<^verbatim>\<open>TypeError\<close>). The model keeps the report untyped, as
  the code has it. A dictionary is an association list in insertion order (the keys of
  a real dictionary are distinct); a string is a list of 8-bit characters.
\<close>

datatype pyval =
    PStr string
  | PDict "(string \<times> pyval) list"
  | PList "pyval list"
  | PInt int
  | PBool bool
  | PNone

text \<open>
  A computation that may raise returns an option: \<open>None\<close> is "an exception was raised"
  (the code catches none, so it leaves the function), \<open>Some v\<close> is the value returned.
\<close>

type_synonym 'a raising = "'a option"

text \<open>\<^verbatim>\<open>x.get(key, default)\<close>: a method of dictionaries only.\<close>

fun py_get :: "pyval \<Rightarrow> string \<Rightarrow> pyval \<Rightarrow> pyval raising" where
  "py_get (PDict kvs) key dflt = Some (case map_of kvs key of Some v \<Rightarrow> v | None \<Rightarrow> dflt)"
| "py_get _ key dflt = None"

text \<open>\<^verbatim>\<open>x.items()\<close>: a method of dictionaries only; the pairs come in insertion order.\<close>

fun py_items :: "pyval \<Rightarrow> (string \<times> pyval) list raising" where
  "py_items (PDict kvs) = Some kvs"
| "py_items _ = None"

text \<open>
  \<^verbatim>\<open>x.upper()\<close>: a method of strings only. The model maps the letters a to z to A to Z
  and leaves every other character as it is. Python also changes letters outside ASCII,
  but none of them becomes an ASCII letter of the word the result is searched for, so
  the test \<^verbatim>\<open>"GOOGLE" in motherboard_name.upper()\<close>, the only use of \<^verbatim>\<open>upper\<close>, is not
  affected.
\<close>

definition upper_char :: "char \<Rightarrow> char" where
  "upper_char c =
     (case map_of (zip ''abcdefghijklmnopqrstuvwxyz'' ''ABCDEFGHIJKLMNOPQRSTUVWXYZ'') c of
        Some u \<Rightarrow> u
      | None \<Rightarrow> c)"

fun py_upper :: "pyval \<Rightarrow> string raising" where
  "py_upper (PStr s) = Some (map upper_char s)"
| "py_upper _ = None"

text \<open>
  \<^verbatim>\<open>"lit" in x\<close> for a string literal: the substring test on a string, membership in a
  list, key membership in a dictionary; a number, a boolean or \<^verbatim>\<open>None\<close> is not a container
  and raises \<^verbatim>\<open>TypeError\<close>.
\<close>

fun py_in :: "string \<Rightarrow> pyval \<Rightarrow> bool raising" where
  "py_in lit (PStr s) = Some (sublist lit s)"
| "py_in lit (PList xs) = Some (PStr lit \<in> set xs)"
| "py_in lit (PDict kvs) = Some (lit \<in> fst ` set kvs)"
| "py_in lit _ = None"

text \<open>\<^verbatim>\<open>len(x)\<close>: strings, lists and dictionaries have a length; anything else raises.\<close>

fun py_len :: "pyval \<Rightarrow> nat raising" where
  "py_len (PStr s) = Some (length s)"
| "py_len (PList xs) = Some (length xs)"
| "py_len (PDict kvs) = Some (length kvs)"
| "py_len _ = None"

text \<open>\<^verbatim>\<open>x[5:]\<close>: strings and lists are sliced; a dictionary raises on a slice key.\<close>

fun py_slice_from5 :: "pyval \<Rightarrow> pyval raising" where
  "py_slice_from5 (PStr s) = Some (PStr (drop 5 s))"
| "py_slice_from5 (PList xs) = Some (PList (drop 5 xs))"
| "py_slice_from5 _ = None"

text \<open>\<^verbatim>\<open>s.startswith((p1, ..., pn))\<close> on a string: some listed prefix starts it.\<close>

definition startswith :: "string \<Rightarrow> string list \<Rightarrow> bool" where
  "startswith s ps = list_ex (\<lambda>p. prefix p s) ps"

section \<open>The reference dataset\<close>

text \<open>
  Modelled from the spec: the table \<^verbatim>\<open>pci_data.ChromebookIDs\<close> of \<^verbatim>\<open>Scripts/datasets\<close> is
  not part of the sources at hand. The specification gives it as a mapping from a
  device-identifier string to the set of subsystem-identifier strings that qualify, so
  it is a parameter of that type. Both membership tests hash their left operand: a list
  or a dictionary there raises \<^verbatim>\<open>TypeError\<close>, any other value that is not a string is
  simply not a member.
\<close>

type_synonym dataset = "string \<rightharpoonup> string set"

fun py_hashable :: "pyval \<Rightarrow> bool" where
  "py_hashable (PDict kvs) = False"
| "py_hashable (PList xs) = False"
| "py_hashable _ = True"

text \<open>
  The nested test the detector and the enumerator share:
  \<^verbatim>\<open>
  if device_id in pci_data.ChromebookIDs:
      if subsystem_id in pci_data.ChromebookIDs[device_id]:
  \<close>
  The inner test is only evaluated when the outer one holds.
\<close>

fun in_ChromebookIDs :: "dataset \<Rightarrow> pyval \<Rightarrow> pyval \<Rightarrow> bool raising" where
  "in_ChromebookIDs ids (PStr d) subsystem_id =
     (case ids d of
        None \<Rightarrow> Some False
      | Some subs \<Rightarrow>
          (case subsystem_id of
             PStr s \<Rightarrow> Some (s \<in> subs)
           | _ \<Rightarrow> if py_hashable subsystem_id then Some False else None))"
| "in_ChromebookIDs ids device_id subsystem_id =
     (if py_hashable device_id then Some False else None)"

section \<open>Detection\<close>

text \<open>
  The loop of \<^verbatim>\<open>is_chromebook\<close> over \<^verbatim>\<open>system_devices.items()\<close>: it returns \<^verbatim>\<open>True\<close> at the
  first device whose identifiers are in the dataset, and \<^verbatim>\<open>False\<close> when the devices run
  out.
\<close>

fun is_chromebook_devices :: "dataset \<Rightarrow> (string \<times> pyval) list \<Rightarrow> bool raising" where
  "is_chromebook_devices ids [] = Some False"
| "is_chromebook_devices ids ((device_name, device_props) # rest) = do {
     device_id \<leftarrow> py_get device_props ''Device ID'' (PStr '''');
     subsystem_id \<leftarrow> py_get device_props ''Subsystem ID'' (PStr '''');
     hit \<leftarrow> in_ChromebookIDs ids device_id subsystem_id;
     if hit then Some True else is_chromebook_devices ids rest
   }"

definition is_chromebook :: "dataset \<Rightarrow> pyval \<Rightarrow> bool raising" where
  "is_chromebook ids hardware_report = do {
     motherboard \<leftarrow> py_get hardware_report ''Motherboard'' (PDict []);
     motherboard_name \<leftarrow> py_get motherboard ''Name'' (PStr '''');
     upper_name \<leftarrow> py_upper motherboard_name;
     if sublist ''GOOGLE'' upper_name then Some True
     else do {
       system_devices \<leftarrow> py_get hardware_report ''System Devices'' (PDict []);
       devices \<leftarrow> py_items system_devices;
       is_chromebook_devices ids devices
     }
   }"

section \<open>Diagnostic information\<close>

text \<open>
  The dictionaries \<^verbatim>\<open>get_chromebook_info\<close> builds. The descriptor of a matched device has
  the keys \<^verbatim>\<open>name\<close>, \<^verbatim>\<open>device_id\<close> and \<^verbatim>\<open>subsystem_id\<close>; the info has the keys
  \<^verbatim>\<open>is_chromebook\<close>, \<^verbatim>\<open>motherboard\<close> and \<^verbatim>\<open>chromebook_devices\<close>. A field is prefixed where
  the key is also the name of a function or of a variable of the code.
\<close>

record chromebook_device =
  dev_name :: string
  dev_device_id :: pyval
  dev_subsystem_id :: pyval

record chromebook_info =
  info_is_chromebook :: bool
  motherboard :: pyval
  chromebook_devices :: "chromebook_device list"

text \<open>The loop of \<^verbatim>\<open>get_chromebook_info\<close>: it appends a descriptor for every match.\<close>

fun chromebook_devices_loop ::
  "dataset \<Rightarrow> (string \<times> pyval) list \<Rightarrow> chromebook_device list \<Rightarrow> chromebook_device list raising"
where
  "chromebook_devices_loop ids [] found = Some found"
| "chromebook_devices_loop ids ((device_name, device_props) # rest) found = do {
     device_id \<leftarrow> py_get device_props ''Device ID'' (PStr '''');
     subsystem_id \<leftarrow> py_get device_props ''Subsystem ID'' (PStr '''');
     hit \<leftarrow> in_ChromebookIDs ids device_id subsystem_id;
     chromebook_devices_loop ids rest
       (if hit then
          found @ [\<lparr>dev_name = device_name, dev_device_id = device_id,
                    dev_subsystem_id = subsystem_id\<rparr>]
        else found)
   }"

definition get_chromebook_info :: "dataset \<Rightarrow> pyval \<Rightarrow> chromebook_info raising" where
  "get_chromebook_info ids hardware_report = do {
     detected \<leftarrow> is_chromebook ids hardware_report;
     mb \<leftarrow> py_get hardware_report ''Motherboard'' (PDict []);
     mb_name \<leftarrow> py_get mb ''Name'' (PStr ''Unknown'');
     system_devices \<leftarrow> py_get hardware_report ''System Devices'' (PDict []);
     devices \<leftarrow> py_items system_devices;
     found \<leftarrow> chromebook_devices_loop ids devices [];
     Some \<lparr>info_is_chromebook = detected, motherboard = mb_name, chromebook_devices = found\<rparr>
   }"

section \<open>Graphics substitution\<close>

text \<open>
  An entry of \<^verbatim>\<open>spoof_config\<close>, with the keys \<^verbatim>\<open>original_device_id\<close>, \<^verbatim>\<open>spoofed_device_id\<close>,
  \<^verbatim>\<open>AAPL,ig-platform-id\<close> and \<^verbatim>\<open>reason\<close>.
\<close>

record igpu_spoof =
  original_device_id :: pyval
  spoofed_device_id :: string
  ig_platform_id :: string
  igpu_reason :: string

text \<open>
  \<^verbatim>\<open>device_id_short = device_id[5:] if len(device_id) >= 9 else device_id\<close>
\<close>

definition device_id_short :: "pyval \<Rightarrow> pyval raising" where
  "device_id_short device_id = do {
     n \<leftarrow> py_len device_id;
     if n \<ge> 9 then py_slice_from5 device_id else Some device_id
   }"

text \<open>
  The \<^verbatim>\<open>if\<close>/\<^verbatim>\<open>elif\<close> chain over \<^verbatim>\<open>device_id_short.startswith((...))\<close>, on a string: the
  spoofed device id, the \<^verbatim>\<open>AAPL,ig-platform-id\<close> and the reason of the first branch taken,
  \<open>None\<close> when no branch is taken (the chain has no \<^verbatim>\<open>else\<close>).
\<close>

definition igpu_chain :: "string \<Rightarrow> (string \<times> string \<times> string) option" where
  "igpu_chain short =
     (if startswith short [''0A06'', ''0A16'', ''0A1E'', ''0A26'', ''0A2E''] then
        Some (''12040000'', ''0600260A'', ''Chromebook Haswell iGPU spoofing'')
      else if startswith short [''1606'', ''1616'', ''161E'', ''1626'', ''162B''] then
        Some (''16160000'', ''06002616'', ''Chromebook Broadwell iGPU spoofing'')
      else if startswith short [''1906'', ''1916'', ''191E'', ''1926'', ''192B''] then
        Some (''16190000'', ''00001619'', ''Chromebook Skylake iGPU spoofing'')
      else if startswith short [''5906'', ''5916'', ''591E'', ''5926'', ''5927''] then
        Some (''16590000'', ''00001659'', ''Chromebook Kaby Lake iGPU spoofing'')
      else if startswith short [''5A84'', ''5A85''] then
        Some (''5A850000'', ''00005A84'', ''Chromebook Apollo Lake iGPU spoofing'')
      else if startswith short [''3184'', ''3185''] then
        Some (''85310000'', ''00003185'', ''Chromebook Gemini Lake iGPU spoofing'')
      else if startswith short [''9B41'', ''9BA5'', ''9BA8''] then
        Some (''A53B0000'', ''0000A53B'', ''Chromebook Comet Lake iGPU spoofing'')
      else if startswith short [''8A51'', ''8A52'', ''8A5A''] then
        Some (''5A528A00'', ''00528A8A'', ''Chromebook Ice Lake iGPU spoofing'')
      else None)"

text \<open>
  \<^verbatim>\<open>startswith\<close> is a method of strings only: on any other value the first test of the
  chain raises \<^verbatim>\<open>AttributeError\<close>.
\<close>

fun py_igpu_chain :: "pyval \<Rightarrow> (string \<times> string \<times> string) option raising" where
  "py_igpu_chain (PStr short) = Some (igpu_chain short)"
| "py_igpu_chain _ = None"

text \<open>
  The loop over \<^verbatim>\<open>hardware_report.get("GPU", {}).items()\<close>. The three fields are read
  first; \<^verbatim>\<open>"Intel" not in gpu_manufacturer or "Integrated" not in gpu_type\<close> evaluates its
  second test only when the first one is false. \<^verbatim>\<open>spoof_config[gpu_name] = ...\<close> is
  \<^const>\<open>AList.update\<close>: the value of a key already there is replaced where it stands, a
  new key goes to the end.
\<close>

fun spoof_igpu_loop ::
  "(string \<times> pyval) list \<Rightarrow> (string \<times> igpu_spoof) list \<Rightarrow> (string \<times> igpu_spoof) list raising"
where
  "spoof_igpu_loop [] spoof_config = Some spoof_config"
| "spoof_igpu_loop ((gpu_name, gpu_props) # rest) spoof_config = do {
     gpu_manufacturer \<leftarrow> py_get gpu_props ''Manufacturer'' (PStr '''');
     device_id \<leftarrow> py_get gpu_props ''Device ID'' (PStr '''');
     gpu_type \<leftarrow> py_get gpu_props ''Device Type'' (PStr '''');
     intel \<leftarrow> py_in ''Intel'' gpu_manufacturer;
     skip \<leftarrow> (if \<not> intel then Some True
              else do { integrated \<leftarrow> py_in ''Integrated'' gpu_type; Some (\<not> integrated) });
     if skip then spoof_igpu_loop rest spoof_config
     else do {
       short \<leftarrow> device_id_short device_id;
       branch \<leftarrow> py_igpu_chain short;
       spoof_igpu_loop rest
         (case branch of
            None \<Rightarrow> spoof_config
          | Some (spoofed, platform_id, why) \<Rightarrow>
              AList.update gpu_name
                \<lparr>original_device_id = device_id, spoofed_device_id = spoofed,
                 ig_platform_id = platform_id, igpu_reason = why\<rparr>
                spoof_config)
     }
   }"

definition spoof_igpu_for_chromebook ::
  "pyval \<Rightarrow> pyval \<Rightarrow> (string \<times> igpu_spoof) list raising"
where
  "spoof_igpu_for_chromebook hardware_report macos_version = do {
     gpu_section \<leftarrow> py_get hardware_report ''GPU'' (PDict []);
     gpus \<leftarrow> py_items gpu_section;
     spoof_igpu_loop gpus []
   }"

section \<open>Processor substitution\<close>

text \<open>
  The dictionary \<^verbatim>\<open>spoof_info\<close>, with the keys \<^verbatim>\<open>needs_spoofing\<close>, \<^verbatim>\<open>original_cpu\<close> and
  \<^verbatim>\<open>reason\<close>; the keys \<^verbatim>\<open>spoof_as\<close> and \<^verbatim>\<open>cpuid_data\<close> are only set on the low-end path, so
  they are optional fields.
\<close>

record cpu_spoof =
  needs_spoofing :: bool
  original_cpu :: pyval
  cpu_reason :: string
  spoof_as :: "string option"
  cpuid_data :: "string option"

text \<open>
  The \<^verbatim>\<open>if\<close>/\<^verbatim>\<open>elif\<close>/\<^verbatim>\<open>else\<close> chain over \<^verbatim>\<open>"..." in cpu_codename\<close>: the pair
  (\<^verbatim>\<open>spoof_as\<close>, \<^verbatim>\<open>cpuid_data\<close>) of the first branch taken.
\<close>

definition cpu_chain :: "pyval \<Rightarrow> (string \<times> string) raising" where
  "cpu_chain cpu_codename = do {
     haswell \<leftarrow> py_in ''Haswell'' cpu_codename;
     if haswell then Some (''Core i5-4300U'', ''C3060300'') else do {
     broadwell \<leftarrow> py_in ''Broadwell'' cpu_codename;
     if broadwell then Some (''Core i5-5300U'', ''D4060300'') else do {
     skylake \<leftarrow> py_in ''Skylake'' cpu_codename;
     if skylake then Some (''Core i5-6300U'', ''E3060300'') else do {
     kaby_lake \<leftarrow> py_in ''Kaby Lake'' cpu_codename;
     if kaby_lake then Some (''Core i5-7300U'', ''E9060300'') else do {
     apollo_lake \<leftarrow> py_in ''Apollo Lake'' cpu_codename;
     goldmont \<leftarrow> (if apollo_lake then Some True else py_in ''Goldmont'' cpu_codename);
     if goldmont then Some (''Core i3-7100U'', ''E9060300'') else do {
     gemini_lake \<leftarrow> py_in ''Gemini Lake'' cpu_codename;
     if gemini_lake then Some (''Core i3-8100'', ''EA060900'') else do {
     comet_lake \<leftarrow> py_in ''Comet Lake'' cpu_codename;
     if comet_lake then Some (''Core i5-10210U'', ''EC060A00'') else do {
     ice_lake \<leftarrow> py_in ''Ice Lake'' cpu_codename;
     if ice_lake then Some (''Core i5-1035G1'', ''E5060700'')
     else Some (''Core i5 (Generic)'', ''E3060300'')
     }}}}}}}
   }"

definition spoof_cpu_for_chromebook :: "pyval \<Rightarrow> cpu_spoof raising" where
  "spoof_cpu_for_chromebook hardware_report = do {
     cpu \<leftarrow> py_get hardware_report ''CPU'' (PDict []);
     cpu_name \<leftarrow> py_get cpu ''Processor Name'' (PStr '''');
     cpu2 \<leftarrow> py_get hardware_report ''CPU'' (PDict []);
     cpu_codename \<leftarrow> py_get cpu2 ''Codename'' (PStr '''');
     celeron \<leftarrow> py_in ''Celeron'' cpu_name;
     low_end \<leftarrow> (if celeron then Some True else py_in ''Pentium'' cpu_name);
     if low_end then do {
       (substitute, cpuid) \<leftarrow> cpu_chain cpu_codename;
       Some \<lparr>needs_spoofing = True, original_cpu = cpu_name,
             cpu_reason = ''Chromebook low-end CPU detected (Celeron/Pentium)'',
             spoof_as = Some substitute, cpuid_data = Some cpuid\<rparr>
     }
     else
       Some \<lparr>needs_spoofing = False, original_cpu = cpu_name, cpu_reason = '''',
             spoof_as = None, cpuid_data = None\<rparr>
   }"

section \<open>The report\<close>

text \<open>
  The dictionary \<^verbatim>\<open>report\<close>, with the keys \<^verbatim>\<open>is_chromebook\<close>, \<^verbatim>\<open>chromebook_info\<close>,
  \<^verbatim>\<open>igpu_spoofing\<close>, \<^verbatim>\<open>cpu_spoofing\<close> and \<^verbatim>\<open>recommendations\<close>. \<^verbatim>\<open>igpu_spoofing\<close> is a
  dictionary from GPU names to entries, empty at first. \<^verbatim>\<open>cpu_spoofing\<close> starts as the
  empty dictionary \<^verbatim>\<open>{}\<close> (\<open>None\<close> here) and is replaced by the \<^verbatim>\<open>spoof_info\<close> of the
  processor resolver on a Chromebook; \<^verbatim>\<open>report["cpu_spoofing"].get("needs_spoofing")\<close> is
  then the boolean of that dictionary.
\<close>

record spoof_report =
  report_is_chromebook :: bool
  report_chromebook_info :: chromebook_info
  igpu_spoofing :: "(string \<times> igpu_spoof) list"
  cpu_spoofing :: "cpu_spoof option"
  recommendations :: "string list"

definition note_quirk :: string where
  "note_quirk = ''Chromebook detected - ProtectMemoryRegions quirk will be enabled''"

definition note_igpu :: string where
  "note_igpu = ''iGPU spoofing required for proper graphics acceleration''"

text \<open>
  \<^verbatim>\<open>f"CPU will be spoofed as {report['cpu_spoofing'].get('spoof_as', 'supported model')}"\<close>
\<close>

definition note_cpu :: "cpu_spoof \<Rightarrow> string" where
  "note_cpu cpu =
     ''CPU will be spoofed as '' @
       (case spoof_as cpu of Some substitute \<Rightarrow> substitute | None \<Rightarrow> ''supported model'')"

definition note_firmware :: string where
  "note_firmware = ''Ensure you have disabled firmware write protection before installation''"

definition note_acpi :: string where
  "note_acpi = ''ChromeOS firmware may require additional ACPI patches''"

definition generate_chromebook_report :: "dataset \<Rightarrow> pyval \<Rightarrow> pyval \<Rightarrow> spoof_report raising" where
  "generate_chromebook_report ids hardware_report macos_version = do {
     detected \<leftarrow> is_chromebook ids hardware_report;
     info \<leftarrow> get_chromebook_info ids hardware_report;
     if detected then do {
       igpu \<leftarrow> spoof_igpu_for_chromebook hardware_report macos_version;
       cpu \<leftarrow> spoof_cpu_for_chromebook hardware_report;
       Some \<lparr>report_is_chromebook = detected, report_chromebook_info = info,
             igpu_spoofing = igpu, cpu_spoofing = Some cpu,
             recommendations =
               [note_quirk]
               @ (if igpu \<noteq> [] then [note_igpu] else [])
               @ (if needs_spoofing cpu then [note_cpu cpu] else [])
               @ [note_firmware, note_acpi]\<rparr>
     }
     else
       Some \<lparr>report_is_chromebook = detected, report_chromebook_info = info,
             igpu_spoofing = [], cpu_spoofing = None, recommendations = []\<rparr>
   }"

section \<open>Hardware records\<close>

text \<open>
  The specification's HardwareRecord: a dictionary whose sections \<^verbatim>\<open>Motherboard\<close> and \<^verbatim>\<open>CPU\<close>
  are dictionaries of string fields, and whose sections \<^verbatim>\<open>System Devices\<close> and \<^verbatim>\<open>GPU\<close> map
  a name to a dictionary of string fields. Any section and any field may be absent; what
  is present has the type the specification gives it. Other keys are not constrained:
  the code never reads them.
\<close>

definition str_or_absent :: "(string \<times> pyval) list \<Rightarrow> string \<Rightarrow> bool" where
  "str_or_absent kvs k =
     (case map_of kvs k of None \<Rightarrow> True | Some (PStr s) \<Rightarrow> True | Some _ \<Rightarrow> False)"

fun props_ok :: "string list \<Rightarrow> pyval \<Rightarrow> bool" where
  "props_ok ks (PDict kvs) = list_all (str_or_absent kvs) ks"
| "props_ok ks _ = False"

fun entries_ok :: "string list \<Rightarrow> pyval \<Rightarrow> bool" where
  "entries_ok ks (PDict es) =
     (distinct (map fst es) \<and> list_all (\<lambda>(n, props). props_ok ks props) es)"
| "entries_ok ks _ = False"

definition section_ok :: "(string \<times> pyval) list \<Rightarrow> string \<Rightarrow> (pyval \<Rightarrow> bool) \<Rightarrow> bool" where
  "section_ok secs k ok = (case map_of secs k of None \<Rightarrow> True | Some v \<Rightarrow> ok v)"

fun hardware_record :: "pyval \<Rightarrow> bool" where
  "hardware_record (PDict secs) =
     (section_ok secs ''Motherboard'' (props_ok [''Name'']) \<and>
      section_ok secs ''System Devices'' (entries_ok [''Device ID'', ''Subsystem ID'']) \<and>
      section_ok secs ''GPU'' (entries_ok [''Manufacturer'', ''Device ID'', ''Device Type'']) \<and>
      section_ok secs ''CPU'' (props_ok [''Processor Name'', ''Codename'']))"
| "hardware_record _ = False"

text \<open>
  The typed reading of a record: the entries of a section (none when the section is
  absent), and a string field with the default that stands for it when it is absent.
\<close>

definition section_of :: "pyval \<Rightarrow> string \<Rightarrow> (string \<times> pyval) list" where
  "section_of hardware_report k =
     (case hardware_report of
        PDict secs \<Rightarrow> (case map_of secs k of Some (PDict kvs) \<Rightarrow> kvs | _ \<Rightarrow> [])
      | _ \<Rightarrow> [])"

definition field_of :: "(string \<times> pyval) list \<Rightarrow> string \<Rightarrow> string \<Rightarrow> string" where
  "field_of kvs k dflt = (case map_of kvs k of Some (PStr s) \<Rightarrow> s | _ \<Rightarrow> dflt)"

definition props_field :: "pyval \<Rightarrow> string \<Rightarrow> string" where
  "props_field props k = (case props of PDict kvs \<Rightarrow> field_of kvs k [] | _ \<Rightarrow> [])"

section \<open>What the functions compute on a hardware record\<close>

text \<open>
  On a hardware record no operation of the code raises, and each function is a pure
  function of the typed reading. These are the pure functions; the lemmas
  \<open>is_chromebook_char\<close>, \<open>get_chromebook_info_char\<close>, \<open>spoof_igpu_char\<close> and
  \<open>spoof_cpu_char\<close> prove that the code computes them.
\<close>

definition dev_match :: "dataset \<Rightarrow> string \<times> pyval \<Rightarrow> bool" where
  "dev_match ids dev =
     (case ids (props_field (snd dev) ''Device ID'') of
        None \<Rightarrow> False
      | Some subs \<Rightarrow> props_field (snd dev) ''Subsystem ID'' \<in> subs)"

definition dev_descriptor :: "string \<times> pyval \<Rightarrow> chromebook_device" where
  "dev_descriptor dev =
     \<lparr>dev_name = fst dev, dev_device_id = PStr (props_field (snd dev) ''Device ID''),
      dev_subsystem_id = PStr (props_field (snd dev) ''Subsystem ID'')\<rparr>"

definition rule_A :: "pyval \<Rightarrow> bool" where
  "rule_A hr = sublist ''GOOGLE'' (map upper_char (field_of (section_of hr ''Motherboard'') ''Name'' []))"

definition rule_B :: "dataset \<Rightarrow> pyval \<Rightarrow> bool" where
  "rule_B ids hr = list_ex (dev_match ids) (section_of hr ''System Devices'')"

definition short_id :: "string \<Rightarrow> string" where
  "short_id d = (if 9 \<le> length d then drop 5 d else d)"

definition gpu_entry :: "pyval \<Rightarrow> igpu_spoof option" where
  "gpu_entry props =
     (if sublist ''Intel'' (props_field props ''Manufacturer'') \<and>
         sublist ''Integrated'' (props_field props ''Device Type'')
      then map_option
             (\<lambda>(spoofed, platform_id, why).
                \<lparr>original_device_id = PStr (props_field props ''Device ID''),
                 spoofed_device_id = spoofed, ig_platform_id = platform_id, igpu_reason = why\<rparr>)
             (igpu_chain (short_id (props_field props ''Device ID'')))
      else None)"

definition igpu_step :: "string \<times> pyval \<Rightarrow> (string \<times> igpu_spoof) list \<Rightarrow> (string \<times> igpu_spoof) list" where
  "igpu_step gpu cfg = (case gpu_entry (snd gpu) of None \<Rightarrow> cfg | Some e \<Rightarrow> AList.update (fst gpu) e cfg)"

definition cpu_view :: "string \<Rightarrow> string \<Rightarrow> cpu_spoof" where
  "cpu_view cpu_name cpu_codename =
     (if sublist ''Celeron'' cpu_name \<or> sublist ''Pentium'' cpu_name then
        \<lparr>needs_spoofing = True, original_cpu = PStr cpu_name,
         cpu_reason = ''Chromebook low-end CPU detected (Celeron/Pentium)'',
         spoof_as = map_option fst (cpu_chain (PStr cpu_codename)),
         cpuid_data = map_option snd (cpu_chain (PStr cpu_codename))\<rparr>
      else
        \<lparr>needs_spoofing = False, original_cpu = PStr cpu_name, cpu_reason = [],
         spoof_as = None, cpuid_data = None\<rparr>)"

section \<open>The rule tables of the specification\<close>

text \<open>
  The specification gives both resolvers as ordered tables, evaluated first match first:
  a row lists the patterns that select it and the result it yields. The definitions of
  this section follow the specification's words; the theorems compare them with the
  chains of the code.
\<close>

fun spec_first_match :: "(string \<Rightarrow> string \<Rightarrow> bool) \<Rightarrow> (string list \<times> 'a) list \<Rightarrow> string \<Rightarrow> 'a option" where
  "spec_first_match test [] s = None"
| "spec_first_match test ((patterns, result) # rows) s =
     (if list_ex (\<lambda>p. test p s) patterns then Some result else spec_first_match test rows s)"

definition spec_generation_table :: "(string list \<times> string \<times> string) list" where
  "spec_generation_table =
     [([''0A06'', ''0A16'', ''0A1E'', ''0A26'', ''0A2E''], ''12040000'', ''0600260A''),
      ([''1606'', ''1616'', ''161E'', ''1626'', ''162B''], ''16160000'', ''06002616''),
      ([''1906'', ''1916'', ''191E'', ''1926'', ''192B''], ''16190000'', ''00001619''),
      ([''5906'', ''5916'', ''591E'', ''5926'', ''5927''], ''16590000'', ''00001659''),
      ([''5A84'', ''5A85''], ''5A850000'', ''00005A84''),
      ([''3184'', ''3185''], ''85310000'', ''00003185''),
      ([''9B41'', ''9BA5'', ''9BA8''], ''A53B0000'', ''0000A53B''),
      ([''8A51'', ''8A52'', ''8A5A''], ''5A528A00'', ''00528A8A'')]"

definition spec_codename_table :: "(string list \<times> string \<times> string) list" where
  "spec_codename_table =
     [([''Haswell''], ''Core i5-4300U'', ''C3060300''),
      ([''Broadwell''], ''Core i5-5300U'', ''D4060300''),
      ([''Skylake''], ''Core i5-6300U'', ''E3060300''),
      ([''Kaby Lake''], ''Core i5-7300U'', ''E9060300''),
      ([''Apollo Lake'', ''Goldmont''], ''Core i3-7100U'', ''E9060300''),
      ([''Gemini Lake''], ''Core i3-8100'', ''EA060900''),
      ([''Comet Lake''], ''Core i5-10210U'', ''EC060A00''),
      ([''Ice Lake''], ''Core i5-1035G1'', ''E5060700'')]"

definition spec_generic_fallback :: "string \<times> string" where
  "spec_generic_fallback = (''Core i5 (Generic)'', ''E3060300'')"

text \<open>
  The specification's "case-insensitive substring", and "the trailing n characters".
\<close>

definition contains_ignoring_case :: "string \<Rightarrow> string \<Rightarrow> bool" where
  "contains_ignoring_case v s = sublist (map upper_char v) (map upper_char s)"

definition trailing :: "nat \<Rightarrow> string \<Rightarrow> string" where
  "trailing n s = drop (length s - n) s"

section \<open>Filling the gaps of a record\<close>

text \<open>
  "Missing sections and fields are treated as empty strings or empty mappings": the
  record \<open>with_defaults hr\<close> is \<open>hr\<close> with every absent section added as the empty
  dictionary and every absent field added as the empty string, as \<^verbatim>\<open>dict.setdefault\<close>
  would. A function treats what is missing as empty when it returns the same on both.
\<close>

definition setdefault :: "string \<Rightarrow> pyval \<Rightarrow> (string \<times> pyval) list \<Rightarrow> (string \<times> pyval) list" where
  "setdefault k d kvs = (case map_of kvs k of None \<Rightarrow> kvs @ [(k, d)] | Some v \<Rightarrow> kvs)"

fun fill_props :: "string list \<Rightarrow> pyval \<Rightarrow> pyval" where
  "fill_props ks (PDict kvs) = PDict (fold (\<lambda>k. setdefault k (PStr [])) ks kvs)"
| "fill_props ks v = v"

definition fill_entry :: "string list \<Rightarrow> string \<times> pyval \<Rightarrow> string \<times> pyval" where
  "fill_entry ks entry = (fst entry, fill_props ks (snd entry))"

fun fill_entries :: "string list \<Rightarrow> pyval \<Rightarrow> pyval" where
  "fill_entries ks (PDict es) = PDict (map (fill_entry ks) es)"
| "fill_entries ks v = v"

definition fill_section ::
  "string \<Rightarrow> (pyval \<Rightarrow> pyval) \<Rightarrow> (string \<times> pyval) list \<Rightarrow> (string \<times> pyval) list"
where
  "fill_section k fill secs = AList.map_entry k fill (setdefault k (PDict []) secs)"

fun with_defaults :: "pyval \<Rightarrow> pyval" where
  "with_defaults (PDict secs) =
     PDict (fill_section ''CPU'' (fill_props [''Processor Name'', ''Codename''])
           (fill_section ''GPU'' (fill_entries [''Manufacturer'', ''Device ID'', ''Device Type''])
           (fill_section ''System Devices'' (fill_entries [''Device ID'', ''Subsystem ID''])
           (fill_section ''Motherboard'' (fill_props [''Name'']) secs))))"
| "with_defaults v = v"

text \<open>The diagnostic info and the report, up to the motherboard name they carry.\<close>

definition forget_motherboard :: "chromebook_info \<Rightarrow> chromebook_info" where
  "forget_motherboard info = info\<lparr>motherboard := PNone\<rparr>"

definition forget_report_motherboard :: "spoof_report \<Rightarrow> spoof_report" where
  "forget_report_motherboard r =
     r\<lparr>report_chromebook_info := forget_motherboard (report_chromebook_info r)\<rparr>"

section \<open>Example records\<close>

text \<open>
  A reference dataset and hardware records on which the theorems are instantiated: a
  Chromebook with everything present, records with sections or fields missing, and a
  laptop that is not a Chromebook.
\<close>

definition example_ids :: dataset where
  "example_ids = [''8086-9D2D'' \<mapsto> {''1AE0-0000'', ''1AE0-006B''}]"

definition example_report :: pyval where
  "example_report = PDict
     [(''Motherboard'', PDict [(''Name'', PStr ''Google Banon'')]),
      (''System Devices'',
         PDict [(''Serial IO'', PDict [(''Device ID'', PStr ''8086-9D2D''),
                                        (''Subsystem ID'', PStr ''1AE0-0000'')])]),
      (''GPU'',
         PDict [(''Intel HD Graphics 4400'',
                   PDict [(''Manufacturer'', PStr ''Intel Corporation''),
                          (''Device ID'', PStr ''8086-0A16''),
                          (''Device Type'', PStr ''Integrated GPU'')]),
                (''GeForce MX150'',
                   PDict [(''Manufacturer'', PStr ''NVIDIA''),
                          (''Device ID'', PStr ''10DE-1D10''),
                          (''Device Type'', PStr ''Discrete GPU'')])]),
      (''CPU'', PDict [(''Processor Name'', PStr ''Intel Celeron N4020''),
                        (''Codename'', PStr ''Gemini Lake'')])]"

definition sparse_report :: pyval where
  "sparse_report = PDict [(''CPU'', PDict [(''Processor Name'', PStr ''Intel Core i7-1065G7'')])]"

definition unknown_codename_report :: pyval where
  "unknown_codename_report =
     PDict [(''CPU'', PDict [(''Processor Name'', PStr ''Celeron N4020''), (''Codename'', PStr ''XYZ'')])]"

definition board_only_report :: pyval where
  "board_only_report = PDict [(''Motherboard'', PDict [(''Name'', PStr ''gOoGlE Kefka'')])]"

definition device_only_report :: pyval where
  "device_only_report = PDict
     [(''Motherboard'', PDict [(''Name'', PStr ''Generic Board'')]),
      (''System Devices'',
         PDict [(''SMBus'', PDict [(''Device ID'', PStr ''8086-9D23''),
                                    (''Subsystem ID'', PStr ''1AE0-0000'')]),
                (''Serial IO'', PDict [(''Device ID'', PStr ''8086-9D2D''),
                                        (''Subsystem ID'', PStr ''1AE0-006B'')])])]"

definition plain_laptop_report :: pyval where
  "plain_laptop_report = PDict
     [(''Motherboard'', PDict [(''Name'', PStr ''Acer Aspire'')]),
      (''System Devices'',
         PDict [(''Serial IO'', PDict [(''Device ID'', PStr ''8086-9D2D''),
                                        (''Subsystem ID'', PStr ''1025-1094'')])]),
      (''GPU'',
         PDict [(''Intel UHD Graphics 605'',
                   PDict [(''Manufacturer'', PStr ''Intel Corporation''),
                          (''Device ID'', PStr ''8086-3185''),
                          (''Device Type'', PStr ''Integrated GPU'')])]),
      (''CPU'', PDict [(''Processor Name'', PStr ''Intel Pentium Silver N5000''),
                        (''Codename'', PStr ''Gemini Lake'')])]"

definition nameless_board_report :: pyval where
  "nameless_board_report = PDict [(''Motherboard'', PDict [(''Vendor'', PStr ''Google'')])]"

definition incomplete_report :: pyval where
  "incomplete_report = PDict
     [(''Motherboard'', PDict []),
      (''System Devices'',
         PDict [(''Unnamed device'', PDict []),
                (''Serial IO'', PDict [(''Device ID'', PStr ''8086-9D2D''),
                                        (''Subsystem ID'', PStr ''1AE0-0000'')])]),
      (''GPU'',
         PDict [(''Intel HD Graphics'', PDict [(''Manufacturer'', PStr ''Intel Corporation''),
                                                (''Device Type'', PStr ''Integrated GPU'')])]),
      (''CPU'', PDict [(''Processor Name'', PStr ''Intel Celeron 3205U'')])]"

section \<open>The functions on hardware records\<close>

lemma str_or_absent_cases:
  "str_or_absent kvs k \<Longrightarrow> map_of kvs k = None \<or> (\<exists>s. map_of kvs k = Some (PStr s))"
  by (auto simp: str_or_absent_def split: option.splits pyval.splits)

lemma get_str:
  "str_or_absent kvs k \<Longrightarrow> py_get (PDict kvs) k (PStr d) = Some (PStr (field_of kvs k d))"
  using str_or_absent_cases[of kvs k] by (auto simp: field_of_def)

lemma props_get:
  assumes "props_ok ks props" "k \<in> set ks"
  shows "py_get props k (PStr []) = Some (PStr (props_field props k))"
proof (cases props)
  case (PDict kvs)
  with assms have "str_or_absent kvs k" by (simp add: list_all_iff)
  then show ?thesis
    using get_str[of kvs k "[]"] by (simp add: PDict props_field_def)
qed (use assms in simp_all)

lemma get_props_section:
  assumes "hardware_record hr" "(k, ks) \<in> {(''Motherboard'', [''Name'']), (''CPU'', [''Processor Name'', ''Codename''])}"
  shows "py_get hr k (PDict []) = Some (PDict (section_of hr k))"
    and "list_all (str_or_absent (section_of hr k)) ks"
proof -
  obtain secs where hr: "hr = PDict secs" using assms(1) by (cases hr) simp_all
  from assms hr have ok: "section_ok secs k (props_ok ks)" by auto
  show "py_get hr k (PDict []) = Some (PDict (section_of hr k))"
    using ok by (cases "map_of secs k"; cases "the (map_of secs k)")
      (auto simp: hr section_ok_def section_of_def)
  show "list_all (str_or_absent (section_of hr k)) ks"
    using ok by (cases "map_of secs k"; cases "the (map_of secs k)")
      (auto simp: hr section_ok_def section_of_def str_or_absent_def list_all_iff)
qed

lemma get_entries_section:
  assumes "hardware_record hr"
    "(k, ks) \<in> {(''System Devices'', [''Device ID'', ''Subsystem ID'']),
               (''GPU'', [''Manufacturer'', ''Device ID'', ''Device Type''])}"
  shows "py_get hr k (PDict []) = Some (PDict (section_of hr k))"
    and "distinct (map fst (section_of hr k))"
    and "list_all (\<lambda>(n, props). props_ok ks props) (section_of hr k)"
proof -
  obtain secs where hr: "hr = PDict secs" using assms(1) by (cases hr) simp_all
  from assms hr have ok: "section_ok secs k (entries_ok ks)" by auto
  show "py_get hr k (PDict []) = Some (PDict (section_of hr k))"
    using ok by (cases "map_of secs k"; cases "the (map_of secs k)")
      (auto simp: hr section_ok_def section_of_def)
  show "distinct (map fst (section_of hr k))"
    using ok by (cases "map_of secs k"; cases "the (map_of secs k)")
      (auto simp: hr section_ok_def section_of_def)
  show "list_all (\<lambda>(n, props). props_ok ks props) (section_of hr k)"
    using ok by (cases "map_of secs k"; cases "the (map_of secs k)")
      (auto simp: hr section_ok_def section_of_def)
qed

lemma dev_hit:
  "in_ChromebookIDs ids (PStr (props_field props ''Device ID'')) (PStr (props_field props ''Subsystem ID''))
     = Some (dev_match ids (n, props))"
  by (simp add: dev_match_def split: option.splits)

lemma is_chromebook_devices_char:
  "list_all (\<lambda>(n, props). props_ok [''Device ID'', ''Subsystem ID''] props) devs \<Longrightarrow>
   is_chromebook_devices ids devs = Some (list_ex (dev_match ids) devs)"
proof (induction devs)
  case Nil
  then show ?case by simp
next
  case (Cons d devs)
  obtain n props where d: "d = (n, props)" by (cases d)
  from Cons.prems d have ok: "props_ok [''Device ID'', ''Subsystem ID''] props" by simp
  from Cons have IH: "is_chromebook_devices ids devs = Some (list_ex (dev_match ids) devs)" by simp
  show ?case
    using dev_hit[of ids props n]
    by (simp add: d props_get[OF ok] IH del: in_ChromebookIDs.simps)
qed

lemma chromebook_devices_loop_char:
  "list_all (\<lambda>(n, props). props_ok [''Device ID'', ''Subsystem ID''] props) devs \<Longrightarrow>
   chromebook_devices_loop ids devs found = Some (found @ map dev_descriptor (filter (dev_match ids) devs))"
proof (induction devs arbitrary: found)
  case Nil
  then show ?case by simp
next
  case (Cons d devs)
  obtain n props where d: "d = (n, props)" by (cases d)
  from Cons.prems d have ok: "props_ok [''Device ID'', ''Subsystem ID''] props" by simp
  from Cons.prems have rest: "list_all (\<lambda>(n, props). props_ok [''Device ID'', ''Subsystem ID''] props) devs"
    by simp
  show ?case
    using dev_hit[of ids props n]
    by (simp add: d props_get[OF ok] Cons.IH[OF rest] dev_descriptor_def del: in_ChromebookIDs.simps)
qed

lemma is_chromebook_char:
  assumes "hardware_record hr"
  shows "is_chromebook ids hr = Some (rule_A hr \<or> rule_B ids hr)"
proof -
  note mb = get_props_section[OF assms, of "''Motherboard''" "[''Name'']", simplified]
  note sd = get_entries_section[OF assms, of "''System Devices''" "[''Device ID'', ''Subsystem ID'']", simplified]
  have name: "py_get (PDict (section_of hr ''Motherboard'')) ''Name'' (PStr []) =
      Some (PStr (field_of (section_of hr ''Motherboard'') ''Name'' []))"
    using mb(2) by (intro get_str) simp
  show ?thesis
    unfolding is_chromebook_def
    by (simp add: mb(1) name sd(1) is_chromebook_devices_char[OF sd(3)] rule_A_def rule_B_def
        del: py_get.simps)
qed

lemma get_chromebook_info_char:
  assumes "hardware_record hr"
  shows "get_chromebook_info ids hr =
     Some \<lparr>info_is_chromebook = (rule_A hr \<or> rule_B ids hr),
           motherboard = PStr (field_of (section_of hr ''Motherboard'') ''Name'' ''Unknown''),
           chromebook_devices = map dev_descriptor (filter (dev_match ids) (section_of hr ''System Devices''))\<rparr>"
proof -
  note mb = get_props_section[OF assms, of "''Motherboard''" "[''Name'']", simplified]
  note sd = get_entries_section[OF assms, of "''System Devices''" "[''Device ID'', ''Subsystem ID'']", simplified]
  have name: "py_get (PDict (section_of hr ''Motherboard'')) ''Name'' (PStr ''Unknown'') =
      Some (PStr (field_of (section_of hr ''Motherboard'') ''Name'' ''Unknown''))"
    using mb(2) by (intro get_str) simp
  show ?thesis
    unfolding get_chromebook_info_def
    by (simp add: is_chromebook_char[OF assms] mb(1) name sd(1) chromebook_devices_loop_char[OF sd(3)]
        del: py_get.simps)
qed

lemma device_id_short_str: "device_id_short (PStr d) = Some (PStr (short_id d))"
  by (simp add: device_id_short_def short_id_def)

lemma spoof_igpu_loop_char:
  "list_all (\<lambda>(n, props). props_ok [''Manufacturer'', ''Device ID'', ''Device Type''] props) gpus \<Longrightarrow>
   spoof_igpu_loop gpus cfg = Some (fold igpu_step gpus cfg)"
proof (induction gpus arbitrary: cfg)
  case Nil
  then show ?case by simp
next
  case (Cons g gpus)
  obtain n props where g: "g = (n, props)" by (cases g)
  from Cons.prems g have ok: "props_ok [''Manufacturer'', ''Device ID'', ''Device Type''] props" by simp
  from Cons.prems have rest:
    "list_all (\<lambda>(n, props). props_ok [''Manufacturer'', ''Device ID'', ''Device Type''] props) gpus"
    by simp
  show ?case
    by (simp add: g props_get[OF ok] Cons.IH[OF rest] device_id_short_str igpu_step_def gpu_entry_def
        split: option.splits)
qed

lemma map_of_igpu_step:
  "map_of (igpu_step (k, props) cfg) n =
     (if n = k then (case gpu_entry props of Some e \<Rightarrow> Some e | None \<Rightarrow> map_of cfg n) else map_of cfg n)"
  by (simp add: igpu_step_def update_conv' split: option.splits)

lemma map_of_fold_igpu_step:
  "distinct (map fst gpus) \<Longrightarrow>
   map_of (fold igpu_step gpus cfg) n =
     (case map_of gpus n of
        Some props \<Rightarrow> (case gpu_entry props of Some e \<Rightarrow> Some e | None \<Rightarrow> map_of cfg n)
      | None \<Rightarrow> map_of cfg n)"
proof (induction gpus arbitrary: cfg)
  case Nil
  then show ?case by simp
next
  case (Cons g gpus)
  obtain k props where g: "g = (k, props)" by (cases g)
  from Cons.prems g have fresh: "map_of gpus k = None" and d: "distinct (map fst gpus)"
    by (auto simp: map_of_eq_None_iff)
  show ?case
    using fresh by (auto simp: g Cons.IH[OF d] map_of_igpu_step split: option.splits)
qed

lemma keys_fold_igpu_step:
  "fst ` set (fold igpu_step gpus cfg) \<subseteq> fst ` set cfg \<union> fst ` set gpus"
proof (induction gpus arbitrary: cfg)
  case Nil
  then show ?case by simp
next
  case (Cons g gpus)
  have "fst ` set (igpu_step g cfg) \<subseteq> insert (fst g) (fst ` set cfg)"
    by (auto simp: igpu_step_def dom_update split: option.splits)
  with Cons.IH[of "igpu_step g cfg"] show ?case by auto
qed

lemma spoof_igpu_char:
  assumes "hardware_record hr"
  shows "spoof_igpu_for_chromebook hr v = Some (fold igpu_step (section_of hr ''GPU'') [])"
proof -
  note gp = get_entries_section[OF assms, of "''GPU''" "[''Manufacturer'', ''Device ID'', ''Device Type'']", simplified]
  show ?thesis
    unfolding spoof_igpu_for_chromebook_def
    by (simp add: gp(1) spoof_igpu_loop_char[OF gp(3)] del: py_get.simps)
qed

lemma cpu_chain_str: "\<exists>r. cpu_chain (PStr c) = Some r"
  by (simp add: cpu_chain_def)

lemma spoof_cpu_char:
  assumes "hardware_record hr"
  shows "spoof_cpu_for_chromebook hr =
     Some (cpu_view (field_of (section_of hr ''CPU'') ''Processor Name'' [])
                    (field_of (section_of hr ''CPU'') ''Codename'' []))"
proof -
  note cpu = get_props_section[OF assms, of "''CPU''" "[''Processor Name'', ''Codename'']", simplified]
  have name: "py_get (PDict (section_of hr ''CPU'')) ''Processor Name'' (PStr []) =
      Some (PStr (field_of (section_of hr ''CPU'') ''Processor Name'' []))"
    using cpu(2) by (intro get_str) simp
  have code: "py_get (PDict (section_of hr ''CPU'')) ''Codename'' (PStr []) =
      Some (PStr (field_of (section_of hr ''CPU'') ''Codename'' []))"
    using cpu(2) by (intro get_str) simp
  obtain r where r: "cpu_chain (PStr (field_of (section_of hr ''CPU'') ''Codename'' [])) = Some r"
    using cpu_chain_str by blast
  show ?thesis
    unfolding spoof_cpu_for_chromebook_def
    by (cases r) (simp add: cpu(1) name code r cpu_view_def del: py_get.simps)
qed

lemma cpu_view_substitute: "needs_spoofing (cpu_view n c) \<longleftrightarrow> spoof_as (cpu_view n c) \<noteq> None"
  using cpu_chain_str[of c] by (auto simp: cpu_view_def)

section \<open>The chains of the code and the tables of the specification\<close>

lemma igpu_chain_table:
  "map_option (\<lambda>(spoofed, platform_id, why). (spoofed, platform_id)) (igpu_chain s) =
   spec_first_match prefix spec_generation_table s"
  by (simp add: igpu_chain_def startswith_def spec_generation_table_def)

lemma cpu_chain_table:
  "cpu_chain (PStr c) =
   Some (case spec_first_match sublist spec_codename_table c of
           Some r \<Rightarrow> r | None \<Rightarrow> spec_generic_fallback)"
  by (simp add: cpu_chain_def spec_codename_table_def spec_generic_fallback_def)

lemma upper_GOOGLE: "map upper_char ''GOOGLE'' = ''GOOGLE''"
  by (simp add: upper_char_def)

lemma contains_ignoring_case_iff:
  "contains_ignoring_case v s \<longleftrightarrow> (\<exists>u. sublist u s \<and> map upper_char u = map upper_char v)"
proof
  assume "contains_ignoring_case v s"
  then obtain ps ss where "map upper_char s = ps @ map upper_char v @ ss"
    by (auto simp: contains_ignoring_case_def sublist_def)
  then obtain a u b where "s = a @ u @ b" "map upper_char u = map upper_char v"
    by (auto simp: map_eq_append_conv append_eq_map_conv)
  then show "\<exists>u. sublist u s \<and> map upper_char u = map upper_char v"
    by (auto simp: sublist_def)
next
  assume "\<exists>u. sublist u s \<and> map upper_char u = map upper_char v"
  then obtain u where u: "sublist u s" "map upper_char u = map upper_char v" by blast
  from map_mono_sublist[OF u(1), of upper_char] u(2) show "contains_ignoring_case v s"
    by (simp add: contains_ignoring_case_def)
qed

section \<open>When detect returns false\<close>

text \<open>
  These hold for every value, not only for hardware records: when detect has returned
  false, it has read the motherboard name and every device without an exception, and
  the diagnostic info reads nothing more.
\<close>

lemma py_get_any_default: "py_get m k d = Some x \<Longrightarrow> \<exists>y. py_get m k d' = Some y"
  by (cases m) auto

lemma devices_not_detected:
  "is_chromebook_devices ids devs = Some False \<Longrightarrow> chromebook_devices_loop ids devs found = Some found"
proof (induction devs arbitrary: found)
  case Nil
  then show ?case by simp
next
  case (Cons d devs)
  obtain n props where d: "d = (n, props)" by (cases d)
  from Cons.prems show ?case
    by (auto simp: d Cons.IH split: Option.bind_splits if_splits simp del: in_ChromebookIDs.simps)
qed

lemma info_when_not_detected:
  assumes "is_chromebook ids hr = Some False"
  shows "\<exists>mb. get_chromebook_info ids hr =
           Some \<lparr>info_is_chromebook = False, motherboard = mb, chromebook_devices = []\<rparr>"
proof -
  from assms obtain m nm devs where
    m: "py_get hr ''Motherboard'' (PDict []) = Some m" and
    nm: "py_get m ''Name'' (PStr []) = Some nm" and
    sd: "py_get hr ''System Devices'' (PDict []) \<bind> py_items = Some devs" and
    loop: "is_chromebook_devices ids devs = Some False"
    by (auto simp: is_chromebook_def split: Option.bind_splits if_splits)
  from py_get_any_default[OF nm] obtain mb where mb: "py_get m ''Name'' (PStr ''Unknown'') = Some mb"
    by blast
  from sd obtain sdv where sdv: "py_get hr ''System Devices'' (PDict []) = Some sdv" "py_items sdv = Some devs"
    by (auto split: Option.bind_splits)
  show ?thesis
    by (simp add: get_chromebook_info_def assms m mb sdv devices_not_detected[OF loop])
qed

section \<open>Records with their gaps filled\<close>

lemma hardware_record_set_motherboard:
  assumes "hardware_record (PDict secs)"
  shows "hardware_record (PDict (AList.update ''Motherboard'' (PDict [(''Name'', PStr [])]) secs))"
  using assms by (simp add: section_ok_def update_conv' str_or_absent_def)

lemma map_of_setdefault:
  "map_of (setdefault k d kvs) k' =
     (if k' = k then Some (case map_of kvs k of None \<Rightarrow> d | Some v \<Rightarrow> v) else map_of kvs k')"
  by (cases "map_of kvs k") (auto simp: setdefault_def map_add_def split: option.splits)

lemma map_of_fill_section:
  "map_of (fill_section k fill secs) k' =
     (if k' = k then Some (fill (case map_of secs k of None \<Rightarrow> PDict [] | Some v \<Rightarrow> v))
      else map_of secs k')"
  by (simp add: fill_section_def map_of_map_entry map_of_setdefault)

lemma field_of_setdefault: "field_of (setdefault k (PStr []) kvs) k' [] = field_of kvs k' []"
  by (simp add: field_of_def map_of_setdefault split: option.splits)

lemma str_or_absent_setdefault:
  "str_or_absent (setdefault k (PStr []) kvs) k' = str_or_absent kvs k'"
  by (simp add: str_or_absent_def map_of_setdefault split: option.splits)

lemma field_of_fill_fields:
  "field_of (fold (\<lambda>k. setdefault k (PStr [])) ks kvs) k' [] = field_of kvs k' []"
  by (induction ks arbitrary: kvs) (simp_all add: field_of_setdefault)

lemma str_or_absent_fill_fields:
  "str_or_absent (fold (\<lambda>k. setdefault k (PStr [])) ks kvs) k' = str_or_absent kvs k'"
  by (induction ks arbitrary: kvs) (simp_all add: str_or_absent_setdefault)

lemma props_field_fill: "props_field (fill_props ks props) k = props_field props k"
  by (cases props) (simp_all add: props_field_def field_of_fill_fields)

lemma props_ok_fill: "props_ok ks' (fill_props ks props) = props_ok ks' props"
  by (cases props) (simp_all add: str_or_absent_fill_fields list_all_iff)

lemma entries_ok_fill: "entries_ok ks' (fill_entries ks v) = entries_ok ks' v"
  by (cases v) (simp_all add: list_all_iff fill_entry_def comp_def props_ok_fill split_def)

lemma section_ok_fill_section:
  "section_ok (fill_section k fill secs) k' ok =
     (if k' = k then ok (fill (case map_of secs k of None \<Rightarrow> PDict [] | Some v \<Rightarrow> v))
      else section_ok secs k' ok)"
  by (simp add: section_ok_def map_of_fill_section)

lemma section_ok_default:
  "section_ok secs k ok \<Longrightarrow> ok (PDict []) \<Longrightarrow>
   ok (case map_of secs k of None \<Rightarrow> PDict [] | Some v \<Rightarrow> v)"
  by (simp add: section_ok_def split: option.splits)

lemma hardware_record_with_defaults:
  assumes "hardware_record hr"
  shows "hardware_record (with_defaults hr)"
proof -
  obtain secs where hr: "hr = PDict secs" using assms by (cases hr) simp_all
  from assms hr have
    mb: "section_ok secs ''Motherboard'' (props_ok [''Name''])" and
    sd: "section_ok secs ''System Devices'' (entries_ok [''Device ID'', ''Subsystem ID''])" and
    gp: "section_ok secs ''GPU'' (entries_ok [''Manufacturer'', ''Device ID'', ''Device Type''])" and
    cp: "section_ok secs ''CPU'' (props_ok [''Processor Name'', ''Codename''])"
    by simp_all
  have e: "props_ok ks (PDict [])" "entries_ok ks (PDict [])" for ks
    by (simp_all add: str_or_absent_def list_all_iff)
  show ?thesis
    using section_ok_default[OF mb e(1)] section_ok_default[OF sd e(2)]
      section_ok_default[OF gp e(2)] section_ok_default[OF cp e(1)]
    by (simp add: hr section_ok_fill_section map_of_fill_section props_ok_fill entries_ok_fill)
qed

lemma filled_props_section:
  assumes "map_of filled k = Some (fill_props ks (case map_of secs k of None \<Rightarrow> PDict [] | Some v \<Rightarrow> v))"
    and "section_ok secs k (props_ok ks')"
  shows "section_of (PDict filled) k =
         fold (\<lambda>k. setdefault k (PStr [])) ks (section_of (PDict secs) k)"
proof (cases "map_of secs k")
  case None
  then show ?thesis using assms(1) by (simp add: section_of_def)
next
  case (Some v)
  with assms(2) obtain kvs where "v = PDict kvs"
    by (cases v) (simp_all add: section_ok_def)
  with Some assms(1) show ?thesis by (simp add: section_of_def)
qed

lemma filled_entries_section:
  assumes "map_of filled k = Some (fill_entries ks (case map_of secs k of None \<Rightarrow> PDict [] | Some v \<Rightarrow> v))"
    and "section_ok secs k (entries_ok ks')"
  shows "section_of (PDict filled) k = map (fill_entry ks) (section_of (PDict secs) k)"
proof (cases "map_of secs k")
  case None
  then show ?thesis using assms(1) by (simp add: section_of_def)
next
  case (Some v)
  with assms(2) obtain es where "v = PDict es"
    by (cases v) (simp_all add: section_ok_def)
  with Some assms(1) show ?thesis by (simp add: section_of_def)
qed

lemma sections_with_defaults:
  assumes "hardware_record hr"
  shows "section_of (with_defaults hr) ''Motherboard'' =
           fold (\<lambda>k. setdefault k (PStr [])) [''Name''] (section_of hr ''Motherboard'')"
    and "section_of (with_defaults hr) ''System Devices'' =
           map (fill_entry [''Device ID'', ''Subsystem ID'']) (section_of hr ''System Devices'')"
    and "section_of (with_defaults hr) ''GPU'' =
           map (fill_entry [''Manufacturer'', ''Device ID'', ''Device Type'']) (section_of hr ''GPU'')"
    and "section_of (with_defaults hr) ''CPU'' =
           fold (\<lambda>k. setdefault k (PStr [])) [''Processor Name'', ''Codename''] (section_of hr ''CPU'')"
proof -
  obtain secs where hr: "hr = PDict secs" using assms by (cases hr) simp_all
  from assms hr have
    mb: "section_ok secs ''Motherboard'' (props_ok [''Name''])" and
    sd: "section_ok secs ''System Devices'' (entries_ok [''Device ID'', ''Subsystem ID''])" and
    gp: "section_ok secs ''GPU'' (entries_ok [''Manufacturer'', ''Device ID'', ''Device Type''])" and
    cp: "section_ok secs ''CPU'' (props_ok [''Processor Name'', ''Codename''])"
    by simp_all
  show "section_of (with_defaults hr) ''Motherboard'' =
           fold (\<lambda>k. setdefault k (PStr [])) [''Name''] (section_of hr ''Motherboard'')"
    unfolding hr with_defaults.simps
    by (rule filled_props_section[OF _ mb]) (simp add: map_of_fill_section)
  show "section_of (with_defaults hr) ''System Devices'' =
           map (fill_entry [''Device ID'', ''Subsystem ID'']) (section_of hr ''System Devices'')"
    unfolding hr with_defaults.simps
    by (rule filled_entries_section[OF _ sd]) (simp add: map_of_fill_section)
  show "section_of (with_defaults hr) ''GPU'' =
           map (fill_entry [''Manufacturer'', ''Device ID'', ''Device Type'']) (section_of hr ''GPU'')"
    unfolding hr with_defaults.simps
    by (rule filled_entries_section[OF _ gp]) (simp add: map_of_fill_section)
  show "section_of (with_defaults hr) ''CPU'' =
           fold (\<lambda>k. setdefault k (PStr [])) [''Processor Name'', ''Codename''] (section_of hr ''CPU'')"
    unfolding hr with_defaults.simps
    by (rule filled_props_section[OF _ cp]) (simp add: map_of_fill_section)
qed

lemma dev_match_fill: "dev_match ids (fill_entry ks dev) = dev_match ids dev"
  by (simp add: dev_match_def fill_entry_def props_field_fill split: option.splits)

lemma dev_descriptor_fill: "dev_descriptor (fill_entry ks dev) = dev_descriptor dev"
  by (simp add: dev_descriptor_def fill_entry_def props_field_fill)

lemma igpu_step_fill: "igpu_step (fill_entry ks gpu) = igpu_step gpu"
  by (rule ext)
     (simp add: igpu_step_def gpu_entry_def fill_entry_def props_field_fill split: option.splits)

lemma rule_A_with_defaults: "hardware_record hr \<Longrightarrow> rule_A (with_defaults hr) = rule_A hr"
  by (simp only: rule_A_def sections_with_defaults(1) field_of_fill_fields)

lemma rule_B_with_defaults: "hardware_record hr \<Longrightarrow> rule_B ids (with_defaults hr) = rule_B ids hr"
  by (simp add: rule_B_def sections_with_defaults(2) list_ex_iff dev_match_fill)

lemma is_chromebook_with_defaults:
  "hardware_record hr \<Longrightarrow> is_chromebook ids (with_defaults hr) = is_chromebook ids hr"
  by (simp add: is_chromebook_char hardware_record_with_defaults rule_A_with_defaults
      rule_B_with_defaults)

lemma spoof_igpu_with_defaults:
  "hardware_record hr \<Longrightarrow>
   spoof_igpu_for_chromebook (with_defaults hr) v = spoof_igpu_for_chromebook hr v"
  by (simp add: spoof_igpu_char hardware_record_with_defaults sections_with_defaults(3)
      fold_map comp_def igpu_step_fill)

lemma spoof_cpu_with_defaults:
  "hardware_record hr \<Longrightarrow> spoof_cpu_for_chromebook (with_defaults hr) = spoof_cpu_for_chromebook hr"
  by (simp only: spoof_cpu_char hardware_record_with_defaults sections_with_defaults(4)
      field_of_fill_fields)

lemma info_with_defaults:
  "hardware_record hr \<Longrightarrow>
   map_option forget_motherboard (get_chromebook_info ids (with_defaults hr)) =
   map_option forget_motherboard (get_chromebook_info ids hr)"
  by (simp add: get_chromebook_info_char hardware_record_with_defaults forget_motherboard_def
      rule_A_with_defaults rule_B_with_defaults sections_with_defaults(2)
      filter_map comp_def dev_match_fill dev_descriptor_fill)

lemma report_with_defaults:
  assumes "hardware_record hr"
  shows "map_option forget_report_motherboard (generate_chromebook_report ids (with_defaults hr) v) =
         map_option forget_report_motherboard (generate_chromebook_report ids hr v)"
proof -
  note h' = hardware_record_with_defaults[OF assms]
  obtain i where i: "get_chromebook_info ids hr = Some i"
    by (simp add: get_chromebook_info_char[OF assms])
  obtain i' where i': "get_chromebook_info ids (with_defaults hr) = Some i'"
    by (simp add: get_chromebook_info_char[OF h'])
  from info_with_defaults[OF assms, of ids] i i' have same: "forget_motherboard i' = forget_motherboard i"
    by simp
  show ?thesis
    by (simp add: generate_chromebook_report_def is_chromebook_with_defaults[OF assms]
        spoof_igpu_with_defaults[OF assms] spoof_cpu_with_defaults[OF assms]
        is_chromebook_char[OF assms] spoof_igpu_char[OF assms] spoof_cpu_char[OF assms]
        i i' same forget_report_motherboard_def)
qed

section \<open>Values of the wrong type\<close>

text \<open>
  A section or a field that is present with a value of the wrong type is another matter
  than a missing one: the code raises on it. This is why the theorems below are about
  hardware records.
\<close>

lemma malformed_section_raises:
  "is_chromebook ids (PDict [(''Motherboard'', PNone)]) = None \<and>
   spoof_cpu_for_chromebook (PDict [(''CPU'', PDict [(''Processor Name'', PNone)])]) = None \<and>
   spoof_igpu_for_chromebook
     (PDict [(''GPU'', PDict [(''gpu'', PDict [(''Manufacturer'', PStr ''Intel''),
                                               (''Device Type'', PStr ''Integrated''),
                                               (''Device ID'', PInt 2582)])])]) v = None"
  by (simp add: is_chromebook_def spoof_cpu_for_chromebook_def spoof_igpu_for_chromebook_def
      device_id_short_def sublist_code)

section \<open>The claims\<close>

text \<open>
  C1. On a hardware record, the output of the graphics resolver has an entry for a GPU of
  the record exactly when the manufacturer contains "Intel", the device type contains
  "Integrated" and the generation identifier extracted from the device id starts with a
  prefix of some row of the generation table, rows tried in order; the entry then carries
  the substitute device id and the platform tag of that first row. A GPU that matches no
  row has no entry, and the output has no entry for anything but a GPU of the record.
\<close>

theorem graphics_resolver_entries:
  assumes "hardware_record hr"
    and "(gpu_name, gpu_props) \<in> set (section_of hr ''GPU'')"
  shows "\<exists>cfg. spoof_igpu_for_chromebook hr macos_version = Some cfg \<and>
           fst ` set cfg \<subseteq> fst ` set (section_of hr ''GPU'') \<and>
           map_option (\<lambda>e. (spoofed_device_id e, ig_platform_id e)) (map_of cfg gpu_name) =
             (if sublist ''Intel'' (props_field gpu_props ''Manufacturer'') \<and>
                 sublist ''Integrated'' (props_field gpu_props ''Device Type'')
              then spec_first_match prefix spec_generation_table
                     (short_id (props_field gpu_props ''Device ID''))
              else None)"
proof -
  let ?gpus = "section_of hr ''GPU''"
  let ?cfg = "fold igpu_step ?gpus []"
  note gp = get_entries_section[OF assms(1), of "''GPU''" "[''Manufacturer'', ''Device ID'', ''Device Type'']", simplified]
  from assms(2) gp(2) have look: "map_of ?gpus gpu_name = Some gpu_props" by simp
  have entry: "map_of ?cfg gpu_name = gpu_entry gpu_props"
    by (simp add: map_of_fold_igpu_step[OF gp(2)] look split: option.splits)
  have table: "map_option (\<lambda>e. (spoofed_device_id e, ig_platform_id e)) (gpu_entry gpu_props) =
      (if sublist ''Intel'' (props_field gpu_props ''Manufacturer'') \<and>
          sublist ''Integrated'' (props_field gpu_props ''Device Type'')
       then spec_first_match prefix spec_generation_table (short_id (props_field gpu_props ''Device ID''))
       else None)"
    unfolding igpu_chain_table[symmetric]
    by (simp add: gpu_entry_def option.map_comp comp_def split_def)
  have keys: "fst ` set ?cfg \<subseteq> fst ` set ?gpus"
    using keys_fold_igpu_step[of ?gpus "[]"] by simp
  show ?thesis
    using spoof_igpu_char[OF assms(1), of macos_version] entry table keys by simp
qed

theorem graphics_resolver_entries_witness:
  "hardware_record example_report \<and>
   (\<exists>cfg. spoof_igpu_for_chromebook example_report PNone = Some cfg \<and>
          fst ` set cfg \<subseteq> {''Intel HD Graphics 4400'', ''GeForce MX150''} \<and>
          map_option (\<lambda>e. (spoofed_device_id e, ig_platform_id e)) (map_of cfg ''Intel HD Graphics 4400'')
            = Some (''12040000'', ''0600260A'') \<and>
          map_of cfg ''GeForce MX150'' = None)"
proof -
  have h: "hardware_record example_report"
    by (simp add: example_report_def section_ok_def str_or_absent_def)
  have gpus: "section_of example_report ''GPU'' =
     [(''Intel HD Graphics 4400'',
         PDict [(''Manufacturer'', PStr ''Intel Corporation''), (''Device ID'', PStr ''8086-0A16''),
                (''Device Type'', PStr ''Integrated GPU'')]),
      (''GeForce MX150'',
         PDict [(''Manufacturer'', PStr ''NVIDIA''), (''Device ID'', PStr ''10DE-1D10''),
                (''Device Type'', PStr ''Discrete GPU'')])]"
    by (simp add: example_report_def section_of_def)
  have m1: "(''Intel HD Graphics 4400'',
         PDict [(''Manufacturer'', PStr ''Intel Corporation''), (''Device ID'', PStr ''8086-0A16''),
                (''Device Type'', PStr ''Integrated GPU'')]) \<in> set (section_of example_report ''GPU'')"
    by (simp add: gpus)
  have m2: "(''GeForce MX150'',
         PDict [(''Manufacturer'', PStr ''NVIDIA''), (''Device ID'', PStr ''10DE-1D10''),
                (''Device Type'', PStr ''Discrete GPU'')]) \<in> set (section_of example_report ''GPU'')"
    by (simp add: gpus)
  from graphics_resolver_entries[OF h m1, of PNone] graphics_resolver_entries[OF h m2, of PNone]
  show ?thesis
    by (auto simp: h gpus props_field_def field_of_def sublist_code short_id_def
        spec_generation_table_def)
qed

text \<open>
  C2 (as stated: the generation identifier is the trailing 4 characters whenever the
  device id has at least 9 characters). The code drops the first 5 characters instead,
  which leaves more than 4 when the id is longer than 9.
\<close>

theorem generation_id_trailing4_counterexample:
  "9 \<le> length ''8086-0A1600'' \<and>
   device_id_short (PStr ''8086-0A1600'') = Some (PStr ''0A1600'') \<and>
   trailing 4 ''8086-0A1600'' = ''1600'' \<and>
   device_id_short (PStr ''8086-0A1600'') \<noteq> Some (PStr (trailing 4 ''8086-0A1600''))"
  by (simp add: device_id_short_def trailing_def)

text \<open>
  C2, amended. For every device id string, the generation identifier is the id without
  its first 5 characters when the id has at least 9 characters, and the id itself when it
  is shorter. On an id of exactly 9 characters this is its trailing 4 characters.
\<close>

theorem generation_id_drops_prefix:
  "device_id_short (PStr d) = Some (PStr (if 9 \<le> length d then drop 5 d else d)) \<and>
   (length d = 9 \<longrightarrow> device_id_short (PStr d) = Some (PStr (trailing 4 d)))"
  by (simp add: device_id_short_def trailing_def)

theorem generation_id_drops_prefix_witness:
  "length ''8086-5A85'' = 9 \<and>
   device_id_short (PStr ''8086-5A85'') = Some (PStr ''5A85'') \<and>
   trailing 4 ''8086-5A85'' = ''5A85'' \<and>
   device_id_short (PStr ''5A85'') = Some (PStr ''5A85'')"
  using generation_id_drops_prefix[of "''8086-5A85''"] generation_id_drops_prefix[of "''5A85''"]
  by (simp add: trailing_def)

text \<open>
  C3 (as stated: on a Celeron or Pentium the reason is exactly "low-end processor family
  detected"). The reason the code sets is another string.
\<close>

theorem processor_reason_counterexample:
  "spoof_cpu_for_chromebook
     (PDict [(''CPU'', PDict [(''Processor Name'', PStr ''Intel Celeron N4020''),
                              (''Codename'', PStr ''Gemini Lake'')])]) =
     Some \<lparr>needs_spoofing = True, original_cpu = PStr ''Intel Celeron N4020'',
           cpu_reason = ''Chromebook low-end CPU detected (Celeron/Pentium)'',
           spoof_as = Some ''Core i3-8100'', cpuid_data = Some ''EA060900''\<rparr> \<and>
   ''Chromebook low-end CPU detected (Celeron/Pentium)'' \<noteq> ''low-end processor family detected''"
  by (simp add: spoof_cpu_for_chromebook_def cpu_chain_def sublist_code)

text \<open>
  C3, amended. On a hardware record the processor resolver returns the original
  processor name; when the name contains neither "Celeron" nor "Pentium" it returns
  needs-substitution false, an empty reason and no substitute; otherwise it returns
  needs-substitution true with the reason exactly
  "Chromebook low-end CPU detected (Celeron/Pentium)".
\<close>

theorem processor_resolver_low_end:
  assumes "hardware_record hr"
  shows "\<exists>c. spoof_cpu_for_chromebook hr = Some c \<and>
           original_cpu c = PStr (field_of (section_of hr ''CPU'') ''Processor Name'' []) \<and>
           (if sublist ''Celeron'' (field_of (section_of hr ''CPU'') ''Processor Name'' []) \<or>
               sublist ''Pentium'' (field_of (section_of hr ''CPU'') ''Processor Name'' [])
            then needs_spoofing c \<and>
                 cpu_reason c = ''Chromebook low-end CPU detected (Celeron/Pentium)''
            else \<not> needs_spoofing c \<and> cpu_reason c = [] \<and>
                 spoof_as c = None \<and> cpuid_data c = None)"
  by (simp add: spoof_cpu_char[OF assms] cpu_view_def)

theorem processor_resolver_low_end_witness:
  "hardware_record example_report \<and> hardware_record sparse_report \<and>
   (\<exists>c. spoof_cpu_for_chromebook example_report = Some c \<and>
        original_cpu c = PStr ''Intel Celeron N4020'' \<and> needs_spoofing c \<and>
        cpu_reason c = ''Chromebook low-end CPU detected (Celeron/Pentium)'') \<and>
   (\<exists>c. spoof_cpu_for_chromebook sparse_report = Some c \<and>
        original_cpu c = PStr ''Intel Core i7-1065G7'' \<and> \<not> needs_spoofing c \<and>
        cpu_reason c = [] \<and> spoof_as c = None \<and> cpuid_data c = None)"
proof -
  have h1: "hardware_record example_report"
    by (simp add: example_report_def section_ok_def str_or_absent_def)
  have h2: "hardware_record sparse_report"
    by (simp add: sparse_report_def section_ok_def str_or_absent_def)
  have n1: "field_of (section_of example_report ''CPU'') ''Processor Name'' [] = ''Intel Celeron N4020''"
    by (simp add: example_report_def section_of_def field_of_def)
  have n2: "field_of (section_of sparse_report ''CPU'') ''Processor Name'' [] = ''Intel Core i7-1065G7''"
    by (simp add: sparse_report_def section_of_def field_of_def)
  from processor_resolver_low_end[OF h1] processor_resolver_low_end[OF h2]
  show ?thesis
    by (simp add: h1 h2 n1 n2 sublist_code)
qed

text \<open>
  C4. On a hardware record whose processor name contains "Celeron" or "Pentium", the
  substitute of the processor resolver is the result of the first row of the codename
  table one of whose substrings occurs in the codename, and the generic fallback
  (Core i5 (Generic), E3060300) when no row matches: a substitute is always given.
\<close>

theorem processor_resolver_substitute:
  assumes "hardware_record hr"
    and "sublist ''Celeron'' (field_of (section_of hr ''CPU'') ''Processor Name'' []) \<or>
         sublist ''Pentium'' (field_of (section_of hr ''CPU'') ''Processor Name'' [])"
  shows "\<exists>c. spoof_cpu_for_chromebook hr = Some c \<and> needs_spoofing c \<and>
           (spoof_as c, cpuid_data c) =
             (case spec_first_match sublist spec_codename_table
                     (field_of (section_of hr ''CPU'') ''Codename'' []) of
                Some (substitute, payload) \<Rightarrow> (Some substitute, Some payload)
              | None \<Rightarrow> (Some (fst spec_generic_fallback), Some (snd spec_generic_fallback)))"
  using assms(2)
  by (auto simp: spoof_cpu_char[OF assms(1)] cpu_view_def cpu_chain_table split: option.splits)

theorem processor_resolver_substitute_witness:
  "hardware_record example_report \<and>
   (\<exists>c. spoof_cpu_for_chromebook example_report = Some c \<and> needs_spoofing c \<and>
        (spoof_as c, cpuid_data c) = (Some ''Core i3-8100'', Some ''EA060900'')) \<and>
   hardware_record unknown_codename_report \<and>
   (\<exists>c. spoof_cpu_for_chromebook unknown_codename_report = Some c \<and> needs_spoofing c \<and>
        (spoof_as c, cpuid_data c) = (Some ''Core i5 (Generic)'', Some ''E3060300''))"
proof -
  have h1: "hardware_record example_report"
    by (simp add: example_report_def section_ok_def str_or_absent_def)
  have h2: "hardware_record unknown_codename_report"
    by (simp add: unknown_codename_report_def section_ok_def str_or_absent_def)
  have c1: "sublist ''Celeron'' (field_of (section_of example_report ''CPU'') ''Processor Name'' []) \<or>
            sublist ''Pentium'' (field_of (section_of example_report ''CPU'') ''Processor Name'' [])"
    by (simp add: example_report_def section_of_def field_of_def sublist_code)
  have c2: "sublist ''Celeron'' (field_of (section_of unknown_codename_report ''CPU'') ''Processor Name'' []) \<or>
            sublist ''Pentium'' (field_of (section_of unknown_codename_report ''CPU'') ''Processor Name'' [])"
    by (simp add: unknown_codename_report_def section_of_def field_of_def sublist_code)
  have t1: "spec_first_match sublist spec_codename_table
              (field_of (section_of example_report ''CPU'') ''Codename'' []) =
            Some (''Core i3-8100'', ''EA060900'')"
    by (simp add: example_report_def section_of_def field_of_def sublist_code spec_codename_table_def)
  have t2: "spec_first_match sublist spec_codename_table
              (field_of (section_of unknown_codename_report ''CPU'') ''Codename'' []) = None"
    by (simp add: unknown_codename_report_def section_of_def field_of_def sublist_code
        spec_codename_table_def)
  from processor_resolver_substitute[OF h1 c1] processor_resolver_substitute[OF h2 c2]
  show ?thesis
    by (simp add: h1 h2 t1 t2 spec_generic_fallback_def)
qed

text \<open>
  C5. On a hardware record, detect returns true when the motherboard name contains
  "GOOGLE" in any letter case (rule A), or when some entry of System Devices has a
  device id that is a key of the reference dataset and a subsystem id in the set the
  dataset gives for that key (rule B); it returns false when neither rule fires.
\<close>

theorem detect_rules:
  assumes "hardware_record hr"
  shows "is_chromebook ids hr =
     Some (contains_ignoring_case ''GOOGLE'' (field_of (section_of hr ''Motherboard'') ''Name'' []) \<or>
           (\<exists>dev \<in> set (section_of hr ''System Devices'').
              \<exists>subs. ids (props_field (snd dev) ''Device ID'') = Some subs \<and>
                     props_field (snd dev) ''Subsystem ID'' \<in> subs))"
proof -
  have a: "rule_A hr = contains_ignoring_case ''GOOGLE'' (field_of (section_of hr ''Motherboard'') ''Name'' [])"
    unfolding rule_A_def contains_ignoring_case_def upper_GOOGLE ..
  have b: "rule_B ids hr =
      (\<exists>dev \<in> set (section_of hr ''System Devices'').
         \<exists>subs. ids (props_field (snd dev) ''Device ID'') = Some subs \<and>
                props_field (snd dev) ''Subsystem ID'' \<in> subs)"
    by (auto simp: rule_B_def list_ex_iff dev_match_def split: option.splits)
  show ?thesis
    by (simp only: is_chromebook_char[OF assms] a b)
qed

theorem detect_rules_witness:
  "hardware_record example_report \<and> is_chromebook example_ids example_report = Some True \<and>
   hardware_record board_only_report \<and> is_chromebook example_ids board_only_report = Some True \<and>
   hardware_record device_only_report \<and> is_chromebook example_ids device_only_report = Some True \<and>
   hardware_record sparse_report \<and> is_chromebook example_ids sparse_report = Some False"
proof -
  have h1: "hardware_record example_report"
    by (simp add: example_report_def section_ok_def str_or_absent_def)
  have h2: "hardware_record board_only_report"
    by (simp add: board_only_report_def section_ok_def str_or_absent_def)
  have h3: "hardware_record device_only_report"
    by (simp add: device_only_report_def section_ok_def str_or_absent_def)
  have h4: "hardware_record sparse_report"
    by (simp add: sparse_report_def section_ok_def str_or_absent_def)
  have e1: "is_chromebook example_ids example_report = Some True"
    unfolding detect_rules[OF h1]
    by (simp add: example_report_def section_of_def field_of_def contains_ignoring_case_def
        upper_char_def sublist_code)
  have e2: "is_chromebook example_ids board_only_report = Some True"
    unfolding detect_rules[OF h2]
    by (simp add: board_only_report_def section_of_def field_of_def contains_ignoring_case_def
        upper_char_def sublist_code)
  have e3: "is_chromebook example_ids device_only_report = Some True"
    unfolding detect_rules[OF h3]
    by (simp add: device_only_report_def section_of_def field_of_def props_field_def
        contains_ignoring_case_def upper_char_def sublist_code example_ids_def)
  have e4: "is_chromebook example_ids sparse_report = Some False"
    unfolding detect_rules[OF h4]
    by (simp add: sparse_report_def section_of_def field_of_def contains_ignoring_case_def
        upper_char_def)
  show ?thesis
    by (simp only: h1 h2 h3 h4 e1 e2 e3 e4 simp_thms)
qed

text \<open>
  C6. Whenever detect returns false, the report is assembled without an exception, and
  its graphics section is the empty mapping, its processor section is the empty
  dictionary and its recommendation list is empty.
\<close>

theorem report_empty_when_not_detected:
  assumes "is_chromebook ids hr = Some False"
  shows "\<exists>info. get_chromebook_info ids hr = Some info \<and>
           generate_chromebook_report ids hr macos_version =
             Some \<lparr>report_is_chromebook = False, report_chromebook_info = info,
                   igpu_spoofing = [], cpu_spoofing = None, recommendations = []\<rparr>"
proof -
  from info_when_not_detected[OF assms] obtain info where
    "get_chromebook_info ids hr = Some info" by blast
  then show ?thesis
    by (simp add: generate_chromebook_report_def assms)
qed

theorem report_empty_when_not_detected_witness:
  "is_chromebook example_ids plain_laptop_report = Some False \<and>
   spoof_igpu_for_chromebook plain_laptop_report PNone \<noteq> Some [] \<and>
   map_option needs_spoofing (spoof_cpu_for_chromebook plain_laptop_report) = Some True \<and>
   map_option igpu_spoofing (generate_chromebook_report example_ids plain_laptop_report PNone) = Some [] \<and>
   map_option cpu_spoofing (generate_chromebook_report example_ids plain_laptop_report PNone) = Some None \<and>
   map_option recommendations (generate_chromebook_report example_ids plain_laptop_report PNone) = Some []"
proof -
  have d: "is_chromebook example_ids plain_laptop_report = Some False"
    by (simp add: plain_laptop_report_def is_chromebook_def upper_char_def sublist_code example_ids_def)
  have g: "spoof_igpu_for_chromebook plain_laptop_report PNone \<noteq> Some []"
    by (simp add: plain_laptop_report_def spoof_igpu_for_chromebook_def device_id_short_def
        igpu_chain_def startswith_def sublist_code)
  have c: "map_option needs_spoofing (spoof_cpu_for_chromebook plain_laptop_report) = Some True"
    by (simp add: plain_laptop_report_def spoof_cpu_for_chromebook_def cpu_chain_def sublist_code)
  from report_empty_when_not_detected[OF d, of PNone] show ?thesis
    using d g c by auto
qed

text \<open>
  C7. On a hardware record on which detect returns true, the report carries the outputs
  of both resolvers, and its recommendation list is, in this order: the quirk note; the
  graphics note exactly when the graphics mapping is not empty; the processor note
  "CPU will be spoofed as" followed by the chosen substitute exactly when
  needs-substitution is true; the firmware write-protection note; the ACPI note.
\<close>

theorem report_recommendations_when_detected:
  assumes "hardware_record hr" and "is_chromebook ids hr = Some True"
  shows "\<exists>igpu cpu r.
           spoof_igpu_for_chromebook hr macos_version = Some igpu \<and>
           spoof_cpu_for_chromebook hr = Some cpu \<and>
           generate_chromebook_report ids hr macos_version = Some r \<and>
           report_is_chromebook r \<and> igpu_spoofing r = igpu \<and> cpu_spoofing r = Some cpu \<and>
           needs_spoofing cpu = (spoof_as cpu \<noteq> None) \<and>
           recommendations r =
             [note_quirk]
             @ (if igpu \<noteq> [] then [note_igpu] else [])
             @ (case spoof_as cpu of
                  Some substitute \<Rightarrow> [''CPU will be spoofed as '' @ substitute]
                | None \<Rightarrow> [])
             @ [note_firmware, note_acpi]"
  using cpu_view_substitute
  by (auto simp: generate_chromebook_report_def assms(2) get_chromebook_info_char[OF assms(1)]
      spoof_igpu_char[OF assms(1)] spoof_cpu_char[OF assms(1)] note_cpu_def
      split: option.splits)

theorem report_recommendations_when_detected_witness:
  "hardware_record example_report \<and> is_chromebook example_ids example_report = Some True \<and>
   map_option recommendations (generate_chromebook_report example_ids example_report PNone) =
     Some [''Chromebook detected - ProtectMemoryRegions quirk will be enabled'',
           ''iGPU spoofing required for proper graphics acceleration'',
           ''CPU will be spoofed as Core i3-8100'',
           ''Ensure you have disabled firmware write protection before installation'',
           ''ChromeOS firmware may require additional ACPI patches''] \<and>
   hardware_record board_only_report \<and> is_chromebook example_ids board_only_report = Some True \<and>
   map_option recommendations (generate_chromebook_report example_ids board_only_report PNone) =
     Some [''Chromebook detected - ProtectMemoryRegions quirk will be enabled'',
           ''Ensure you have disabled firmware write protection before installation'',
           ''ChromeOS firmware may require additional ACPI patches'']"
proof -
  have h1: "hardware_record example_report"
    by (simp add: example_report_def section_ok_def str_or_absent_def)
  have h2: "hardware_record board_only_report"
    by (simp add: board_only_report_def section_ok_def str_or_absent_def)
  have d1: "is_chromebook example_ids example_report = Some True"
    by (simp add: example_report_def is_chromebook_def upper_char_def sublist_code)
  have d2: "is_chromebook example_ids board_only_report = Some True"
    by (simp add: board_only_report_def is_chromebook_def upper_char_def sublist_code)
  have g1: "spoof_igpu_for_chromebook example_report PNone =
      Some [(''Intel HD Graphics 4400'',
             \<lparr>original_device_id = PStr ''8086-0A16'', spoofed_device_id = ''12040000'',
              ig_platform_id = ''0600260A'', igpu_reason = ''Chromebook Haswell iGPU spoofing''\<rparr>)]"
    by (simp add: example_report_def spoof_igpu_for_chromebook_def device_id_short_def
        igpu_chain_def startswith_def sublist_code)
  have c1: "spoof_cpu_for_chromebook example_report =
      Some \<lparr>needs_spoofing = True, original_cpu = PStr ''Intel Celeron N4020'',
            cpu_reason = ''Chromebook low-end CPU detected (Celeron/Pentium)'',
            spoof_as = Some ''Core i3-8100'', cpuid_data = Some ''EA060900''\<rparr>"
    by (simp add: example_report_def spoof_cpu_for_chromebook_def cpu_chain_def sublist_code)
  have g2: "spoof_igpu_for_chromebook board_only_report PNone = Some []"
    by (simp add: board_only_report_def spoof_igpu_for_chromebook_def)
  have c2: "spoof_cpu_for_chromebook board_only_report =
      Some \<lparr>needs_spoofing = False, original_cpu = PStr [], cpu_reason = [],
            spoof_as = None, cpuid_data = None\<rparr>"
    by (simp add: board_only_report_def spoof_cpu_for_chromebook_def)
  from report_recommendations_when_detected[OF h1 d1, of PNone]
       report_recommendations_when_detected[OF h2 d2, of PNone]
  show ?thesis
    by (auto simp: h1 h2 d1 d2 g1 c1 g2 c2 note_quirk_def note_igpu_def note_firmware_def note_acpi_def)
qed

text \<open>
  C8 (as stated: no function raises on an incomplete hardware record, every missing
  section or field being treated as the empty mapping or the empty string). The
  diagnostic info does not treat a missing motherboard name as the empty string: on a
  record without a Motherboard section it reports "Unknown", and on the same record with
  every gap filled by its empty default it reports the empty string.
\<close>

theorem missing_name_is_not_empty_counterexample:
  "hardware_record sparse_report \<and>
   with_defaults sparse_report =
     PDict [(''CPU'', PDict [(''Processor Name'', PStr ''Intel Core i7-1065G7''),
                             (''Codename'', PStr [])]),
            (''Motherboard'', PDict [(''Name'', PStr [])]),
            (''System Devices'', PDict []),
            (''GPU'', PDict [])] \<and>
   get_chromebook_info example_ids sparse_report =
     Some \<lparr>info_is_chromebook = False, motherboard = PStr ''Unknown'', chromebook_devices = []\<rparr> \<and>
   get_chromebook_info example_ids (with_defaults sparse_report) =
     Some \<lparr>info_is_chromebook = False, motherboard = PStr [], chromebook_devices = []\<rparr> \<and>
   get_chromebook_info example_ids sparse_report \<noteq>
     get_chromebook_info example_ids (with_defaults sparse_report)"
  by (simp add: sparse_report_def section_ok_def str_or_absent_def fill_section_def setdefault_def
      get_chromebook_info_def is_chromebook_def upper_char_def)

text \<open>
  C8, amended. On every hardware record, however incomplete (any section missing, any
  field missing within a section), detect, the device enumerator, the graphics resolver,
  the processor resolver and the report assembler raise no exception, and a report is
  always produced. A missing section is treated as the empty mapping and a missing field
  as the empty string: each function returns what it returns on the record with every
  gap filled by its empty default, except for the motherboard name in the diagnostic
  info, which is the name when present and "Unknown" when missing.
\<close>

theorem no_exception_on_incomplete_records:
  assumes "hardware_record hr"
  shows "(\<exists>b. is_chromebook ids hr = Some b) \<and>
         (\<exists>i. get_chromebook_info ids hr = Some i) \<and>
         (\<exists>g. spoof_igpu_for_chromebook hr v = Some g) \<and>
         (\<exists>c. spoof_cpu_for_chromebook hr = Some c) \<and>
         (\<exists>r. generate_chromebook_report ids hr v = Some r) \<and>
         is_chromebook ids (with_defaults hr) = is_chromebook ids hr \<and>
         spoof_igpu_for_chromebook (with_defaults hr) v = spoof_igpu_for_chromebook hr v \<and>
         spoof_cpu_for_chromebook (with_defaults hr) = spoof_cpu_for_chromebook hr \<and>
         map_option forget_motherboard (get_chromebook_info ids (with_defaults hr)) =
           map_option forget_motherboard (get_chromebook_info ids hr) \<and>
         map_option forget_report_motherboard (generate_chromebook_report ids (with_defaults hr) v) =
           map_option forget_report_motherboard (generate_chromebook_report ids hr v) \<and>
         map_option motherboard (get_chromebook_info ids hr) =
           Some (PStr (field_of (section_of hr ''Motherboard'') ''Name'' ''Unknown''))"
proof -
  have "\<exists>r. generate_chromebook_report ids hr v = Some r"
    by (simp add: generate_chromebook_report_def is_chromebook_char[OF assms]
        get_chromebook_info_char[OF assms] spoof_igpu_char[OF assms] spoof_cpu_char[OF assms])
  then show ?thesis
    by (simp add: is_chromebook_with_defaults[OF assms] spoof_igpu_with_defaults[OF assms]
        spoof_cpu_with_defaults[OF assms] info_with_defaults[OF assms] report_with_defaults[OF assms]
        is_chromebook_char[OF assms] get_chromebook_info_char[OF assms]
        spoof_igpu_char[OF assms] spoof_cpu_char[OF assms])
qed

theorem no_exception_on_incomplete_records_witness:
  "hardware_record incomplete_report \<and>
   is_chromebook example_ids (with_defaults incomplete_report) = Some True \<and>
   spoof_igpu_for_chromebook (with_defaults incomplete_report) PNone = Some [] \<and>
   map_option spoof_as (spoof_cpu_for_chromebook (with_defaults incomplete_report)) =
     Some (Some ''Core i5 (Generic)'') \<and>
   map_option motherboard (get_chromebook_info example_ids incomplete_report) = Some (PStr ''Unknown'') \<and>
   map_option recommendations (generate_chromebook_report example_ids incomplete_report PNone) =
     Some [note_quirk, ''CPU will be spoofed as Core i5 (Generic)'', note_firmware, note_acpi]"
proof -
  have h: "hardware_record incomplete_report"
    by (simp add: incomplete_report_def section_ok_def str_or_absent_def)
  have d: "is_chromebook example_ids incomplete_report = Some True"
    by (simp add: incomplete_report_def is_chromebook_def example_ids_def)
  have g: "spoof_igpu_for_chromebook incomplete_report PNone = Some []"
    by (simp add: incomplete_report_def spoof_igpu_for_chromebook_def device_id_short_def
        igpu_chain_def startswith_def sublist_code)
  have c: "spoof_cpu_for_chromebook incomplete_report =
      Some \<lparr>needs_spoofing = True, original_cpu = PStr ''Intel Celeron 3205U'',
            cpu_reason = ''Chromebook low-end CPU detected (Celeron/Pentium)'',
            spoof_as = Some ''Core i5 (Generic)'', cpuid_data = Some ''E3060300''\<rparr>"
    by (simp add: incomplete_report_def spoof_cpu_for_chromebook_def cpu_chain_def sublist_code)
  have i: "get_chromebook_info example_ids incomplete_report =
      Some \<lparr>info_is_chromebook = True, motherboard = PStr ''Unknown'',
            chromebook_devices =
              [\<lparr>dev_name = ''Serial IO'', dev_device_id = PStr ''8086-9D2D'',
                dev_subsystem_id = PStr ''1AE0-0000''\<rparr>]\<rparr>"
    by (simp add: incomplete_report_def get_chromebook_info_def is_chromebook_def example_ids_def)
  have r: "map_option recommendations (generate_chromebook_report example_ids incomplete_report PNone) =
      Some [note_quirk, ''CPU will be spoofed as Core i5 (Generic)'', note_firmware, note_acpi]"
    by (simp add: generate_chromebook_report_def d g c i note_cpu_def)
  from no_exception_on_incomplete_records[OF h, of example_ids PNone]
  show ?thesis
    by (simp add: h d g c i r)
qed

text \<open>
  C9. The graphics resolver and the report assembler return the same result for any two
  target-OS-version tokens: the parameter is accepted and never consulted.
\<close>

theorem version_token_ignored:
  "spoof_igpu_for_chromebook hr v1 = spoof_igpu_for_chromebook hr v2 \<and>
   generate_chromebook_report ids hr v1 = generate_chromebook_report ids hr v2"
  unfolding generate_chromebook_report_def spoof_igpu_for_chromebook_def by simp

text \<open>
  C10. On a hardware record whose Motherboard section or its Name field is absent, the
  diagnostic info of the device enumerator gives the motherboard as the string
  "Unknown", while detect returns what it returns on the same record with the name set
  to the empty string.
\<close>

theorem missing_motherboard_name:
  assumes "hardware_record (PDict secs)"
    and "map_of (section_of (PDict secs) ''Motherboard'') ''Name'' = None"
  shows "map_option motherboard (get_chromebook_info ids (PDict secs)) = Some (PStr ''Unknown'') \<and>
         is_chromebook ids (PDict secs) =
           is_chromebook ids (PDict (AList.update ''Motherboard'' (PDict [(''Name'', PStr [])]) secs))"
proof -
  let ?named = "PDict (AList.update ''Motherboard'' (PDict [(''Name'', PStr [])]) secs)"
  have h: "hardware_record ?named"
    by (rule hardware_record_set_motherboard[OF assms(1)])
  have a: "rule_A ?named = rule_A (PDict secs)"
    using assms(2) by (simp add: rule_A_def section_of_def update_conv' field_of_def)
  have b: "rule_B ids ?named = rule_B ids (PDict secs)"
    by (simp add: rule_B_def section_of_def update_conv')
  show ?thesis
    using assms(2)
    by (simp add: get_chromebook_info_char[OF assms(1)] is_chromebook_char[OF assms(1)]
        is_chromebook_char[OF h] a b field_of_def)
qed

theorem missing_motherboard_name_witness:
  "hardware_record sparse_report \<and>
   map_option motherboard (get_chromebook_info example_ids sparse_report) = Some (PStr ''Unknown'') \<and>
   is_chromebook example_ids sparse_report = Some False \<and>
   hardware_record nameless_board_report \<and>
   map_option motherboard (get_chromebook_info example_ids nameless_board_report) = Some (PStr ''Unknown'') \<and>
   is_chromebook example_ids nameless_board_report = Some False"
proof -
  have h1: "hardware_record (PDict [(''CPU'', PDict [(''Processor Name'', PStr ''Intel Core i7-1065G7'')])])"
    by (simp add: section_ok_def str_or_absent_def)
  have h2: "hardware_record (PDict [(''Motherboard'', PDict [(''Vendor'', PStr ''Google'')])])"
    by (simp add: section_ok_def str_or_absent_def)
  have n1: "map_of (section_of (PDict [(''CPU'', PDict [(''Processor Name'', PStr ''Intel Core i7-1065G7'')])]) ''Motherboard'') ''Name'' = None"
    by (simp add: section_of_def)
  have n2: "map_of (section_of (PDict [(''Motherboard'', PDict [(''Vendor'', PStr ''Google'')])]) ''Motherboard'') ''Name'' = None"
    by (simp add: section_of_def)
  from missing_motherboard_name[OF h1 n1, of example_ids] missing_motherboard_name[OF h2 n2, of example_ids]
  show ?thesis
    using h1 h2
    by (simp add: sparse_report_def nameless_board_report_def is_chromebook_def upper_char_def)
qed

end
